theory Spec2Isabelle
  imports Complex_Main
begin

unbundle bit_operations_syntax

section \<open>Geometry primitives\<close>

text \<open>
  The dataclasses \<^verbatim>\<open>Point\<close>, \<^verbatim>\<open>Segment\<close> and \<^verbatim>\<open>Rect\<close> of \<^verbatim>\<open>main.py\<close>.
  The arithmetic of the program is read in two ways. In the records of this section the
  coordinates are exact real numbers, and the two routines are first written with exact
  arithmetic; that reading carries the statements that do not depend on rounding (the
  outcode tests, the control flow, the concrete scenarios on small integers). The second
  reading, further below, repeats both routines over a model of IEEE 754 doubles, the
  \<^verbatim>\<open>float\<close> of Python, and carries the statements that rounding or overflow decides.
\<close>

record Point =
  x :: real
  y :: real

record Segment =
  p1 :: Point
  p2 :: Point

record Rect =
  xmin :: real
  ymin :: real
  xmax :: real
  ymax :: real

text \<open>What the Python code can raise inside the two clipping routines.\<close>

datatype py_error = ZeroDivisionError | UnboundLocalError

section \<open>Cohen--Sutherland segment clipping\<close>

abbreviation INSIDE :: int where "INSIDE \<equiv> 0"

abbreviation LEFT :: int where "LEFT \<equiv> 1"

abbreviation RIGHT :: int where "RIGHT \<equiv> 2"

abbreviation BOTTOM :: int where "BOTTOM \<equiv> 4"

abbreviation TOP :: int where "TOP \<equiv> 8"

text \<open>The nested function \<^verbatim>\<open>outcode\<close>; the rectangle is the enclosing function's argument.\<close>

definition outcode :: "Rect \<Rightarrow> Point \<Rightarrow> int" where
  "outcode rect p =
     (let code = INSIDE;
          code = (if x p < xmin rect then code OR LEFT
                  else if x p > xmax rect then code OR RIGHT
                  else code);
          code = (if y p < ymin rect then code OR BOTTOM
                  else if y p > ymax rect then code OR TOP
                  else code)
      in code)"

text \<open>Python's \<^verbatim>\<open>/\<close>: a zero divisor raises \<^verbatim>\<open>ZeroDivisionError\<close>.\<close>

definition py_truediv :: "real \<Rightarrow> real \<Rightarrow> py_error + real" where
  "py_truediv a b = (if b = 0 then Inl ZeroDivisionError else Inr (a / b))"

text \<open>
  Lines 53--64 of the loop body: the chain \<^verbatim>\<open>if out & TOP ... elif out & LEFT\<close> that
  computes the new coordinates. The chain has no final \<^verbatim>\<open>else\<close>: if no bit matched, the
  later use of the unassigned locals would raise \<^verbatim>\<open>UnboundLocalError\<close>.
\<close>

definition boundary_point :: "Rect \<Rightarrow> Point \<Rightarrow> Point \<Rightarrow> int \<Rightarrow> py_error + Point" where
  "boundary_point rect q1 q2 out =
     (if out AND TOP \<noteq> 0 then
        (case py_truediv ((x q2 - x q1) * (ymax rect - y q1)) (y q2 - y q1) of
           Inl e \<Rightarrow> Inl e
         | Inr d \<Rightarrow> Inr \<lparr>x = x q1 + d, y = ymax rect\<rparr>)
      else if out AND BOTTOM \<noteq> 0 then
        (case py_truediv ((x q2 - x q1) * (ymin rect - y q1)) (y q2 - y q1) of
           Inl e \<Rightarrow> Inl e
         | Inr d \<Rightarrow> Inr \<lparr>x = x q1 + d, y = ymin rect\<rparr>)
      else if out AND RIGHT \<noteq> 0 then
        (case py_truediv ((y q2 - y q1) * (xmax rect - x q1)) (x q2 - x q1) of
           Inl e \<Rightarrow> Inl e
         | Inr d \<Rightarrow> Inr \<lparr>x = xmax rect, y = y q1 + d\<rparr>)
      else if out AND LEFT \<noteq> 0 then
        (case py_truediv ((y q2 - y q1) * (xmin rect - x q1)) (x q2 - x q1) of
           Inl e \<Rightarrow> Inl e
         | Inr d \<Rightarrow> Inr \<lparr>x = xmin rect, y = y q1 + d\<rparr>)
      else Inl UnboundLocalError)"

text \<open>
  The \<^verbatim>\<open>while True\<close> loop, with the locals \<^verbatim>\<open>p1, c1, p2, c2\<close> as arguments
  (named \<open>q1, c1, q2, c2\<close> here). The first argument is fuel: one unit per visit of the
  loop head; \<open>None\<close> means the fuel ran out before the loop returned. A returning run
  gives \<open>Some (Inr (Some s))\<close> for \<^verbatim>\<open>return Segment(p1, p2)\<close>, \<open>Some (Inr None)\<close> for
  \<^verbatim>\<open>return None\<close> and \<open>Some (Inl e)\<close> for a raised exception.
\<close>

fun clip_loop :: "nat \<Rightarrow> Rect \<Rightarrow> Point \<Rightarrow> int \<Rightarrow> Point \<Rightarrow> int
    \<Rightarrow> (py_error + Segment option) option" where
  "clip_loop 0 rect q1 c1 q2 c2 = None"
| "clip_loop (Suc fuel) rect q1 c1 q2 c2 =
     (if c1 = 0 \<and> c2 = 0 then Some (Inr (Some \<lparr>p1 = q1, p2 = q2\<rparr>))
      else if c1 AND c2 \<noteq> 0 then Some (Inr None)
      else
        let out = (if c1 \<noteq> 0 then c1 else c2) in
        case boundary_point rect q1 q2 out of
          Inl e \<Rightarrow> Some (Inl e)
        | Inr q \<Rightarrow>
            if out = c1 then clip_loop fuel rect q (outcode rect q) q2 c2
            else clip_loop fuel rect q1 c1 q (outcode rect q))"

definition cohen_sutherland_clip :: "nat \<Rightarrow> Segment \<Rightarrow> Rect
    \<Rightarrow> (py_error + Segment option) option" where
  "cohen_sutherland_clip fuel seg rect =
     (let q1 = \<lparr>x = x (p1 seg), y = y (p1 seg)\<rparr>;
          q2 = \<lparr>x = x (p2 seg), y = y (p2 seg)\<rparr>;
          c1 = outcode rect q1;
          c2 = outcode rect q2
      in clip_loop fuel rect q1 c1 q2 c2)"

section \<open>Sutherland--Hodgman polygon clipping\<close>

definition inside :: "Point \<Rightarrow> Point \<Rightarrow> Point \<Rightarrow> bool" where
  "inside p a b \<longleftrightarrow> (x b - x a) * (y p - y a) - (y b - y a) * (x p - x a) \<ge> 0"

text \<open>The division is reached only when \<open>det\<close> is non-zero, so it cannot raise.\<close>

definition intersection :: "Point \<Rightarrow> Point \<Rightarrow> Point \<Rightarrow> Point \<Rightarrow> Point" where
  "intersection q1 q2 a b =
     (let A1 = y q2 - y q1;
          B1 = x q1 - x q2;
          C1 = A1 * x q1 + B1 * y q1;
          A2 = y b - y a;
          B2 = x a - x b;
          C2 = A2 * x a + B2 * y a;
          det = A1 * B2 - A2 * B1
      in if det = 0 then q2
         else \<lparr>x = (B2 * C1 - B1 * C2) / det, y = (A1 * C2 - A2 * C1) / det\<rparr>)"

text \<open>
  One pass of the inner \<^verbatim>\<open>for j in range(len(input_list))\<close> loop for the clip edge
  \<open>(A, B)\<close>, starting from the empty output list. Both indices are below the length of
  the list whenever the body runs.
\<close>

definition clip_edge :: "Point list \<Rightarrow> Point \<Rightarrow> Point \<Rightarrow> Point list" where
  "clip_edge input_list A B =
     fold (\<lambda>j output.
             let P = input_list ! j;
                 Q = input_list ! ((j + 1) mod length input_list)
             in if inside Q A B then
                  (if \<not> inside P A B then output @ [intersection P Q A B] else output) @ [Q]
                else if inside P A B then output @ [intersection P Q A B]
                else output)
          [0..<length input_list] []"

text \<open>The outer \<^verbatim>\<open>for i in range(len(clipper))\<close> loop, starting from \<^verbatim>\<open>output = poly\<close>.\<close>

definition sutherland_hodgman_clip_polygon :: "Point list \<Rightarrow> Point list \<Rightarrow> Point list" where
  "sutherland_hodgman_clip_polygon poly clipper =
     fold (\<lambda>i output. clip_edge output (clipper ! i) (clipper ! ((i + 1) mod length clipper)))
          [0..<length clipper] poly"

section \<open>The program on IEEE doubles\<close>

text \<open>
  A Python \<^verbatim>\<open>float\<close> is an IEEE 754 binary64 number. It is modelled by its exact value,
  or one of the two infinities, or NaN. The two zeros are identified: they compare equal
  in Python, and a division by either raises before any sign could reach a result.
\<close>

datatype double = Finite real | PosInf | NegInf | NaN

definition pow2 :: "int \<Rightarrow> real" where
  "pow2 e = (if 0 \<le> e then 2 ^ nat e else 1 / 2 ^ nat (- e))"

text \<open>Rounding to the nearest integer, a tie going to the even neighbour.\<close>

definition round_half_even :: "real \<Rightarrow> int" where
  "round_half_even m =
     (let f = \<lfloor>m\<rfloor>; r = m - of_int f
      in if r < 1 / 2 then f else if 1 / 2 < r then f + 1 else if even f then f else f + 1)"

text \<open>
  The binary exponent of a positive number \<open>a\<close>, that is, the \<open>e\<close> with
  \<open>2 ^ e \<le> a < 2 ^ (e + 1)\<close>, found by halving or doubling; the first argument bounds
  the number of steps.
\<close>

fun ilog2 :: "nat \<Rightarrow> real \<Rightarrow> int" where
  "ilog2 0 a = 0"
| "ilog2 (Suc n) a =
     (if 2 \<le> a then ilog2 n (a / 2) + 1 else if a < 1 then ilog2 n (a * 2) - 1 else 0)"

text \<open>
  The result of an arithmetic operation whose exact value is \<open>q\<close>: the nearest double,
  ties to even. Doubles have 53 significant bits, so the spacing \<open>u\<close> of the doubles
  around \<open>q\<close> is \<open>2 ^ (e - 52)\<close>, where the exponent \<open>e\<close> is not taken below \<open>-1022\<close>
  (gradual underflow). A result of magnitude \<open>2 ^ 1024\<close> or more, before or after
  rounding, is an infinity.
\<close>

definition round_double :: "real \<Rightarrow> double" where
  "round_double q =
     (if q = 0 then Finite 0
      else
        let a = \<bar>q\<bar> in
        if pow2 1024 \<le> a then (if 0 < q then PosInf else NegInf)
        else
          let e = (if a < pow2 (- 1022) then - 1022 else ilog2 1100 a);
              u = pow2 (e - 52);
              r = of_int (round_half_even (a / u)) * u
          in if pow2 1024 \<le> r then (if 0 < q then PosInf else NegInf)
             else Finite (if 0 < q then r else - r))"

text \<open>
  The operators \<^verbatim>\<open>+\<close>, \<^verbatim>\<open>-\<close>, \<^verbatim>\<open>*\<close> and \<^verbatim>\<open>/\<close> on doubles. None of them raises on
  overflow; \<^verbatim>\<open>/\<close> raises on a zero divisor, which \<open>py_truediv_d\<close> below checks before
  \<open>d_div\<close> is used.
\<close>

fun d_neg :: "double \<Rightarrow> double" where
  "d_neg (Finite a) = Finite (- a)"
| "d_neg PosInf = NegInf"
| "d_neg NegInf = PosInf"
| "d_neg NaN = NaN"

fun d_add :: "double \<Rightarrow> double \<Rightarrow> double" where
  "d_add (Finite a) (Finite b) = round_double (a + b)"
| "d_add NaN b = NaN"
| "d_add a NaN = NaN"
| "d_add PosInf NegInf = NaN"
| "d_add NegInf PosInf = NaN"
| "d_add PosInf b = PosInf"
| "d_add NegInf b = NegInf"
| "d_add a PosInf = PosInf"
| "d_add a NegInf = NegInf"

definition d_sub :: "double \<Rightarrow> double \<Rightarrow> double" where
  "d_sub a b = d_add a (d_neg b)"

fun d_mul :: "double \<Rightarrow> double \<Rightarrow> double" where
  "d_mul (Finite a) (Finite b) = round_double (a * b)"
| "d_mul NaN b = NaN"
| "d_mul a NaN = NaN"
| "d_mul (Finite a) b = (if a = 0 then NaN else if 0 < a then b else d_neg b)"
| "d_mul a (Finite b) = (if b = 0 then NaN else if 0 < b then a else d_neg a)"
| "d_mul PosInf b = b"
| "d_mul NegInf b = d_neg b"

fun d_div :: "double \<Rightarrow> double \<Rightarrow> double" where
  "d_div (Finite a) (Finite b) = round_double (a / b)"
| "d_div NaN b = NaN"
| "d_div a NaN = NaN"
| "d_div (Finite a) b = Finite 0"
| "d_div a (Finite b) = (if 0 < b then a else d_neg a)"
| "d_div a b = NaN"

text \<open>The comparisons \<^verbatim>\<open><\<close>, \<^verbatim>\<open>==\<close>, \<^verbatim>\<open>>\<close> and \<^verbatim>\<open>>=\<close>; each is false when an operand is NaN.\<close>

fun d_lt :: "double \<Rightarrow> double \<Rightarrow> bool" where
  "d_lt (Finite a) (Finite b) = (a < b)"
| "d_lt NaN b = False"
| "d_lt a NaN = False"
| "d_lt a NegInf = False"
| "d_lt NegInf b = True"
| "d_lt PosInf b = False"
| "d_lt a PosInf = True"

fun d_eq :: "double \<Rightarrow> double \<Rightarrow> bool" where
  "d_eq (Finite a) (Finite b) = (a = b)"
| "d_eq PosInf PosInf = True"
| "d_eq NegInf NegInf = True"
| "d_eq a b = False"

definition d_gt :: "double \<Rightarrow> double \<Rightarrow> bool" where
  "d_gt a b = d_lt b a"

definition d_ge :: "double \<Rightarrow> double \<Rightarrow> bool" where
  "d_ge a b = (d_lt b a \<or> d_eq a b)"

definition py_truediv_d :: "double \<Rightarrow> double \<Rightarrow> py_error + double" where
  "py_truediv_d a b = (if d_eq b (Finite 0) then Inl ZeroDivisionError else Inr (d_div a b))"

text \<open>
  The dataclasses and the two routines once more, now with double coordinates; names
  carry the suffix \<open>_d\<close>. The code is the same, operator for operator.
\<close>

record Point_d =
  x_d :: double
  y_d :: double

record Segment_d =
  p1_d :: Point_d
  p2_d :: Point_d

record Rect_d =
  xmin_d :: double
  ymin_d :: double
  xmax_d :: double
  ymax_d :: double

definition outcode_d :: "Rect_d \<Rightarrow> Point_d \<Rightarrow> int" where
  "outcode_d rect p =
     (let code = INSIDE;
          code = (if d_lt (x_d p) (xmin_d rect) then code OR LEFT
                  else if d_gt (x_d p) (xmax_d rect) then code OR RIGHT
                  else code);
          code = (if d_lt (y_d p) (ymin_d rect) then code OR BOTTOM
                  else if d_gt (y_d p) (ymax_d rect) then code OR TOP
                  else code)
      in code)"

definition boundary_point_d :: "Rect_d \<Rightarrow> Point_d \<Rightarrow> Point_d \<Rightarrow> int \<Rightarrow> py_error + Point_d" where
  "boundary_point_d rect q1 q2 out =
     (if out AND TOP \<noteq> 0 then
        (case py_truediv_d (d_mul (d_sub (x_d q2) (x_d q1)) (d_sub (ymax_d rect) (y_d q1)))
                (d_sub (y_d q2) (y_d q1)) of
           Inl e \<Rightarrow> Inl e
         | Inr d \<Rightarrow> Inr \<lparr>x_d = d_add (x_d q1) d, y_d = ymax_d rect\<rparr>)
      else if out AND BOTTOM \<noteq> 0 then
        (case py_truediv_d (d_mul (d_sub (x_d q2) (x_d q1)) (d_sub (ymin_d rect) (y_d q1)))
                (d_sub (y_d q2) (y_d q1)) of
           Inl e \<Rightarrow> Inl e
         | Inr d \<Rightarrow> Inr \<lparr>x_d = d_add (x_d q1) d, y_d = ymin_d rect\<rparr>)
      else if out AND RIGHT \<noteq> 0 then
        (case py_truediv_d (d_mul (d_sub (y_d q2) (y_d q1)) (d_sub (xmax_d rect) (x_d q1)))
                (d_sub (x_d q2) (x_d q1)) of
           Inl e \<Rightarrow> Inl e
         | Inr d \<Rightarrow> Inr \<lparr>x_d = xmax_d rect, y_d = d_add (y_d q1) d\<rparr>)
      else if out AND LEFT \<noteq> 0 then
        (case py_truediv_d (d_mul (d_sub (y_d q2) (y_d q1)) (d_sub (xmin_d rect) (x_d q1)))
                (d_sub (x_d q2) (x_d q1)) of
           Inl e \<Rightarrow> Inl e
         | Inr d \<Rightarrow> Inr \<lparr>x_d = xmin_d rect, y_d = d_add (y_d q1) d\<rparr>)
      else Inl UnboundLocalError)"

fun clip_loop_d :: "nat \<Rightarrow> Rect_d \<Rightarrow> Point_d \<Rightarrow> int \<Rightarrow> Point_d \<Rightarrow> int
    \<Rightarrow> (py_error + Segment_d option) option" where
  "clip_loop_d 0 rect q1 c1 q2 c2 = None"
| "clip_loop_d (Suc fuel) rect q1 c1 q2 c2 =
     (if c1 = 0 \<and> c2 = 0 then Some (Inr (Some \<lparr>p1_d = q1, p2_d = q2\<rparr>))
      else if c1 AND c2 \<noteq> 0 then Some (Inr None)
      else
        let out = (if c1 \<noteq> 0 then c1 else c2) in
        case boundary_point_d rect q1 q2 out of
          Inl e \<Rightarrow> Some (Inl e)
        | Inr q \<Rightarrow>
            if out = c1 then clip_loop_d fuel rect q (outcode_d rect q) q2 c2
            else clip_loop_d fuel rect q1 c1 q (outcode_d rect q))"

definition cohen_sutherland_clip_d :: "nat \<Rightarrow> Segment_d \<Rightarrow> Rect_d
    \<Rightarrow> (py_error + Segment_d option) option" where
  "cohen_sutherland_clip_d fuel seg rect =
     (let q1 = \<lparr>x_d = x_d (p1_d seg), y_d = y_d (p1_d seg)\<rparr>;
          q2 = \<lparr>x_d = x_d (p2_d seg), y_d = y_d (p2_d seg)\<rparr>;
          c1 = outcode_d rect q1;
          c2 = outcode_d rect q2
      in clip_loop_d fuel rect q1 c1 q2 c2)"

definition inside_d :: "Point_d \<Rightarrow> Point_d \<Rightarrow> Point_d \<Rightarrow> bool" where
  "inside_d p a b \<longleftrightarrow>
     d_ge (d_sub (d_mul (d_sub (x_d b) (x_d a)) (d_sub (y_d p) (y_d a)))
                 (d_mul (d_sub (y_d b) (y_d a)) (d_sub (x_d p) (x_d a))))
          (Finite 0)"

text \<open>
  The determinant as lines 75--81 compute it, and the routine itself. The division is
  reached only when \<^verbatim>\<open>det == 0\<close> is false, so it cannot raise.
\<close>

definition det_d :: "Point_d \<Rightarrow> Point_d \<Rightarrow> Point_d \<Rightarrow> Point_d \<Rightarrow> double" where
  "det_d q1 q2 a b =
     (let A1 = d_sub (y_d q2) (y_d q1);
          B1 = d_sub (x_d q1) (x_d q2);
          A2 = d_sub (y_d b) (y_d a);
          B2 = d_sub (x_d a) (x_d b)
      in d_sub (d_mul A1 B2) (d_mul A2 B1))"

definition intersection_d :: "Point_d \<Rightarrow> Point_d \<Rightarrow> Point_d \<Rightarrow> Point_d \<Rightarrow> Point_d" where
  "intersection_d q1 q2 a b =
     (let A1 = d_sub (y_d q2) (y_d q1);
          B1 = d_sub (x_d q1) (x_d q2);
          C1 = d_add (d_mul A1 (x_d q1)) (d_mul B1 (y_d q1));
          A2 = d_sub (y_d b) (y_d a);
          B2 = d_sub (x_d a) (x_d b);
          C2 = d_add (d_mul A2 (x_d a)) (d_mul B2 (y_d a));
          det = d_sub (d_mul A1 B2) (d_mul A2 B1)
      in if d_eq det (Finite 0) then q2
         else \<lparr>x_d = d_div (d_sub (d_mul B2 C1) (d_mul B1 C2)) det,
               y_d = d_div (d_sub (d_mul A1 C2) (d_mul A2 C1)) det\<rparr>)"

definition clip_edge_d :: "Point_d list \<Rightarrow> Point_d \<Rightarrow> Point_d \<Rightarrow> Point_d list" where
  "clip_edge_d input_list A B =
     fold (\<lambda>j output.
             let P = input_list ! j;
                 Q = input_list ! ((j + 1) mod length input_list)
             in if inside_d Q A B then
                  (if \<not> inside_d P A B then output @ [intersection_d P Q A B] else output) @ [Q]
                else if inside_d P A B then output @ [intersection_d P Q A B]
                else output)
          [0..<length input_list] []"

definition sutherland_hodgman_clip_polygon_d :: "Point_d list \<Rightarrow> Point_d list \<Rightarrow> Point_d list" where
  "sutherland_hodgman_clip_polygon_d poly clipper =
     fold (\<lambda>i output. clip_edge_d output (clipper ! i) (clipper ! ((i + 1) mod length clipper)))
          [0..<length clipper] poly"

section \<open>Vocabulary of the specification\<close>

text \<open>
  The predicates below are not code of the program; they state what the clipping
  routines are required to compute.
\<close>

definition in_rect :: "Rect \<Rightarrow> Point \<Rightarrow> bool" where
  "in_rect rect p \<longleftrightarrow>
     xmin rect \<le> x p \<and> x p \<le> xmax rect \<and> ymin rect \<le> y p \<and> y p \<le> ymax rect"

text \<open>The point at parameter \<open>t\<close> on the line from \<open>a\<close> to \<open>b\<close>.\<close>

definition lerp :: "Point \<Rightarrow> Point \<Rightarrow> real \<Rightarrow> Point" where
  "lerp a b t = \<lparr>x = x a + t * (x b - x a), y = y a + t * (y b - y a)\<rparr>"



text \<open>
  The implicit form \<open>A * x + B * y = C\<close> of the line through two points, with the
  coefficients as \<^verbatim>\<open>intersection\<close> computes them, and the determinant of the system
  of two such lines.
\<close>

definition on_line :: "Point \<Rightarrow> Point \<Rightarrow> Point \<Rightarrow> bool" where
  "on_line a b p \<longleftrightarrow>
     (y b - y a) * x p + (x a - x b) * y p = (y b - y a) * x a + (x a - x b) * y a"

definition line_det :: "Point \<Rightarrow> Point \<Rightarrow> Point \<Rightarrow> Point \<Rightarrow> real" where
  "line_det q1 q2 a b = (y q2 - y q1) * (x a - x b) - (y b - y a) * (x q1 - x q2)"

text \<open>Signed area of a closed polygon by the shoelace formula.\<close>

definition signed_area :: "Point list \<Rightarrow> real" where
  "signed_area ps =
     (\<Sum>i\<leftarrow>[0..<length ps].
        x (ps ! i) * y (ps ! ((i + 1) mod length ps))
        - x (ps ! ((i + 1) mod length ps)) * y (ps ! i)) / 2"


fun is_finite :: "double \<Rightarrow> bool" where
  "is_finite (Finite a) = True"
| "is_finite a = False"

definition d_le :: "double \<Rightarrow> double \<Rightarrow> bool" where
  "d_le a b = (d_lt a b \<or> d_eq a b)"

definition valid_rect_d :: "Rect_d \<Rightarrow> bool" where
  "valid_rect_d rect \<longleftrightarrow> d_le (xmin_d rect) (xmax_d rect) \<and> d_le (ymin_d rect) (ymax_d rect)"




text \<open>A point with real coordinates as a point with (finite) double coordinates.\<close>

definition to_d :: "Point \<Rightarrow> Point_d" where
  "to_d p = \<lparr>x_d = Finite (x p), y_d = Finite (y p)\<rparr>"

text \<open>
  The exact value of every arithmetic result that \<^verbatim>\<open>intersection\<close> computes on its way
  (lines 75--85), in the order of the code. When \<open>round_double\<close> leaves each of them
  unchanged, no operation of the routine rounds.
\<close>

definition intermediates :: "Point \<Rightarrow> Point \<Rightarrow> Point \<Rightarrow> Point \<Rightarrow> real list" where
  "intermediates q1 q2 a b =
     (let A1 = y q2 - y q1;
          B1 = x q1 - x q2;
          C1 = A1 * x q1 + B1 * y q1;
          A2 = y b - y a;
          B2 = x a - x b;
          C2 = A2 * x a + B2 * y a;
          det = A1 * B2 - A2 * B1
      in [A1, B1, A1 * x q1, B1 * y q1, C1, A2, B2, A2 * x a, B2 * y a, C2,
          A1 * B2, A2 * B1, det,
          B2 * C1, B1 * C2, B2 * C1 - B1 * C2, (B2 * C1 - B1 * C2) / det,
          A1 * C2, A2 * C1, A1 * C2 - A2 * C1, (A1 * C2 - A2 * C1) / det])"

section \<open>Basic facts\<close>

lemma point_eta [simp]: "\<lparr>x = x p, y = y p\<rparr> = (p::Point)"
  by (cases p) simp

lemma segment_eta [simp]: "\<lparr>p1 = p1 s, p2 = p2 s\<rparr> = (s::Segment)"
  by (cases s) simp

lemma point_d_eta [simp]: "\<lparr>x_d = x_d p, y_d = y_d p\<rparr> = (p::Point_d)"
  by (cases p) simp

lemma segment_d_eta [simp]: "\<lparr>p1_d = p1_d s, p2_d = p2_d s\<rparr> = (s::Segment_d)"
  by (cases s) simp

section \<open>The polygon clipper on degenerate input\<close>

lemma clip_edge_Nil: "clip_edge [] a b = []"
  by (simp add: clip_edge_def)

lemma fold_clip_edge_Nil: "fold (\<lambda>i output. clip_edge output (f i) (g i)) js [] = []"
  by (induction js) (simp_all add: clip_edge_Nil)

text \<open>
  C2, as the code has it: an empty subject yields the empty polygon for every clipper;
  an empty clipper runs the outer loop zero times, so the subject is returned as it is.
\<close>

theorem empty_subject_or_clipper:
  "sutherland_hodgman_clip_polygon [] clipper = [] \<and>
   sutherland_hodgman_clip_polygon poly [] = poly"
  by (simp add: sutherland_hodgman_clip_polygon_def fold_clip_edge_Nil)

text \<open>
  C2 as stated fails: with an empty clipper, a one-vertex subject is not turned into the
  empty polygon.
\<close>

theorem empty_clipper_counterexample:
  "sutherland_hodgman_clip_polygon [\<lparr>x = 0, y = 0\<rparr>] [] \<noteq> []"
  by (simp add: sutherland_hodgman_clip_polygon_def)

lemma fold_snoc_map: "fold (\<lambda>j out. out @ [f j]) js acc = acc @ map f js"
  by (induction js arbitrary: acc) simp_all

section \<open>Cramer's rule in exact arithmetic\<close>

lemma cramer_first:
  fixes A1 B1 C1 A2 B2 C2 :: real
  assumes "A1 * B2 - A2 * B1 \<noteq> 0"
  shows "A1 * ((B2 * C1 - B1 * C2) / (A1 * B2 - A2 * B1))
       + B1 * ((A1 * C2 - A2 * C1) / (A1 * B2 - A2 * B1)) = C1"
proof -
  have "A1 * ((B2 * C1 - B1 * C2) / (A1 * B2 - A2 * B1))
       + B1 * ((A1 * C2 - A2 * C1) / (A1 * B2 - A2 * B1))
      = (A1 * (B2 * C1 - B1 * C2) + B1 * (A1 * C2 - A2 * C1)) / (A1 * B2 - A2 * B1)"
    by (simp add: add_divide_distrib)
  also have "A1 * (B2 * C1 - B1 * C2) + B1 * (A1 * C2 - A2 * C1) = C1 * (A1 * B2 - A2 * B1)"
    by (simp add: algebra_simps)
  finally show ?thesis using assms by simp
qed

lemma cramer_second:
  fixes A1 B1 C1 A2 B2 C2 :: real
  assumes "A1 * B2 - A2 * B1 \<noteq> 0"
  shows "A2 * ((B2 * C1 - B1 * C2) / (A1 * B2 - A2 * B1))
       + B2 * ((A1 * C2 - A2 * C1) / (A1 * B2 - A2 * B1)) = C2"
proof -
  have "A2 * ((B2 * C1 - B1 * C2) / (A1 * B2 - A2 * B1))
       + B2 * ((A1 * C2 - A2 * C1) / (A1 * B2 - A2 * B1))
      = (A2 * (B2 * C1 - B1 * C2) + B2 * (A1 * C2 - A2 * C1)) / (A1 * B2 - A2 * B1)"
    by (simp add: add_divide_distrib)
  also have "A2 * (B2 * C1 - B1 * C2) + B2 * (A1 * C2 - A2 * C1) = C2 * (A1 * B2 - A2 * B1)"
    by (simp add: algebra_simps)
  finally show ?thesis using assms by simp
qed

lemma cramer_unique:
  fixes A1 B1 C1 A2 B2 C2 u v :: real
  assumes det: "A1 * B2 - A2 * B1 \<noteq> 0"
    and e1: "A1 * u + B1 * v = C1" and e2: "A2 * u + B2 * v = C2"
  shows "u = (B2 * C1 - B1 * C2) / (A1 * B2 - A2 * B1)"
    and "v = (A1 * C2 - A2 * C1) / (A1 * B2 - A2 * B1)"
proof -
  have "B2 * C1 - B1 * C2 = u * (A1 * B2 - A2 * B1)"
    unfolding e1 [symmetric] e2 [symmetric] by (simp add: algebra_simps)
  then show "u = (B2 * C1 - B1 * C2) / (A1 * B2 - A2 * B1)" using det by simp
  have "A1 * C2 - A2 * C1 = v * (A1 * B2 - A2 * B1)"
    unfolding e1 [symmetric] e2 [symmetric] by (simp add: algebra_simps)
  then show "v = (A1 * C2 - A2 * C1) / (A1 * B2 - A2 * B1)" using det by simp
qed

lemma intersection_solves:
  assumes "line_det q1 q2 a b \<noteq> 0"
  shows "on_line q1 q2 (intersection q1 q2 a b)" and "on_line a b (intersection q1 q2 a b)"
  using assms
    cramer_first [of "y q2 - y q1" "x a - x b" "y b - y a" "x q1 - x q2"
      "(y q2 - y q1) * x q1 + (x q1 - x q2) * y q1" "(y b - y a) * x a + (x a - x b) * y a"]
    cramer_second [of "y q2 - y q1" "x a - x b" "y b - y a" "x q1 - x q2"
      "(y q2 - y q1) * x q1 + (x q1 - x q2) * y q1" "(y b - y a) * x a + (x a - x b) * y a"]
  by (simp_all add: intersection_def Let_def on_line_def line_det_def)

lemma intersection_only_solution:
  assumes det: "line_det q1 q2 a b \<noteq> 0" and l1: "on_line q1 q2 p" and l2: "on_line a b p"
  shows "p = intersection q1 q2 a b"
proof -
  note u = cramer_unique [OF det [unfolded line_det_def] l1 [unfolded on_line_def]
      l2 [unfolded on_line_def]]
  have "x p = x (intersection q1 q2 a b)"
    using det u(1) by (simp add: intersection_def Let_def line_det_def)
  moreover have "y p = y (intersection q1 q2 a b)"
    using det u(2) by (simp add: intersection_def Let_def line_det_def)
  ultimately show ?thesis by simp
qed

section \<open>Concrete scenarios\<close>

text \<open>
  C9: the segment from \<open>(-5, 0)\<close> to \<open>(5, 0)\<close> clipped against the rectangle
  \<open>(xmin = 0, ymin = -1, xmax = 10, ymax = 1)\<close> gives the segment from \<open>(0, 0)\<close> to
  \<open>(5, 0)\<close>; the loop head is visited twice, so any fuel of at least two suffices.
\<close>

theorem scenario_segment:
  "cohen_sutherland_clip (Suc (Suc n))
     \<lparr>p1 = \<lparr>x = -5, y = 0\<rparr>, p2 = \<lparr>x = 5, y = 0\<rparr>\<rparr>
     \<lparr>xmin = 0, ymin = -1, xmax = 10, ymax = 1\<rparr>
   = Some (Inr (Some \<lparr>p1 = \<lparr>x = 0, y = 0\<rparr>, p2 = \<lparr>x = 5, y = 0\<rparr>\<rparr>))"
  by (simp add: cohen_sutherland_clip_def outcode_def boundary_point_def py_truediv_def Let_def)

lemma scenario_polygon_result:
  "sutherland_hodgman_clip_polygon
     [\<lparr>x = 0, y = 0\<rparr>, \<lparr>x = 4, y = 0\<rparr>, \<lparr>x = 4, y = 4\<rparr>, \<lparr>x = 0, y = 4\<rparr>]
     [\<lparr>x = 0, y = 0\<rparr>, \<lparr>x = 4, y = 0\<rparr>, \<lparr>x = 0, y = 4\<rparr>]
   = [\<lparr>x = 0, y = 4\<rparr>, \<lparr>x = 0, y = 4\<rparr>, \<lparr>x = 0, y = 0\<rparr>, \<lparr>x = 4, y = 0\<rparr>, \<lparr>x = 4, y = 0\<rparr>]"
  by (simp add: sutherland_hodgman_clip_polygon_def clip_edge_def inside_def intersection_def
      Let_def upt_rec)

text \<open>
  C6: the square \<open>[(0,0),(4,0),(4,4),(0,4)]\<close> clipped by the triangle
  \<open>[(0,0),(4,0),(0,4)]\<close> gives a five-vertex list that walks the triangle's boundary with
  two vertices repeated. Dropping the repetitions leaves the three vertices of the
  triangle in the triangle's cyclic order, and the enclosed area is 8, the area of the
  triangle.
\<close>

theorem scenario_polygon:
  "remdups_adj (sutherland_hodgman_clip_polygon
       [\<lparr>x = 0, y = 0\<rparr>, \<lparr>x = 4, y = 0\<rparr>, \<lparr>x = 4, y = 4\<rparr>, \<lparr>x = 0, y = 4\<rparr>]
       [\<lparr>x = 0, y = 0\<rparr>, \<lparr>x = 4, y = 0\<rparr>, \<lparr>x = 0, y = 4\<rparr>])
     = rotate 2 [\<lparr>x = 0, y = 0\<rparr>, \<lparr>x = 4, y = 0\<rparr>, \<lparr>x = 0, y = 4\<rparr>] \<and>
   signed_area (sutherland_hodgman_clip_polygon
       [\<lparr>x = 0, y = 0\<rparr>, \<lparr>x = 4, y = 0\<rparr>, \<lparr>x = 4, y = 4\<rparr>, \<lparr>x = 0, y = 4\<rparr>]
       [\<lparr>x = 0, y = 0\<rparr>, \<lparr>x = 4, y = 0\<rparr>, \<lparr>x = 0, y = 4\<rparr>]) = 8 \<and>
   signed_area [\<lparr>x = 0, y = 0\<rparr>, \<lparr>x = 4, y = 0\<rparr>, \<lparr>x = 0, y = 4\<rparr>] = 8"
  unfolding scenario_polygon_result
  by (simp add: signed_area_def upt_rec numeral_2_eq_2)

section \<open>Zero-length segments\<close>

text \<open>
  C7: a segment whose two endpoints are the same point \<open>p\<close> is returned unchanged when
  the outcode of \<open>p\<close> is 0, and clipped away (\<^verbatim>\<open>None\<close>) otherwise. This needs one visit
  of the loop head and holds for every rectangle, valid or not.
\<close>

theorem zero_length_segment:
  "cohen_sutherland_clip (Suc n) \<lparr>p1 = p, p2 = p\<rparr> rect =
     (if outcode rect p = 0 then Some (Inr (Some \<lparr>p1 = p, p2 = p\<rparr>)) else Some (Inr None))"
  by (simp add: cohen_sutherland_clip_def Let_def)

section \<open>Outcodes\<close>





lemma outcode_zero_iff:
  "outcode rect p = 0 \<longleftrightarrow>
     \<not> x p < xmin rect \<and> \<not> x p > xmax rect \<and> \<not> y p < ymin rect \<and> \<not> y p > ymax rect"
  by (simp add: outcode_def Let_def)


lemma lerp_sel [simp]:
  "x (lerp a b t) = x a + t * (x b - x a)" "y (lerp a b t) = y a + t * (y b - y a)"
  by (simp_all add: lerp_def)





section \<open>The clipping loop\<close>

lemma outcode_zero_in_rect: "outcode rect p = 0 \<longleftrightarrow> in_rect rect p"
  by (auto simp: outcode_zero_iff in_rect_def)

lemma clip_loop_accept:
  "clip_loop (Suc fuel) rect q1 0 q2 0 = Some (Inr (Some \<lparr>p1 = q1, p2 = q2\<rparr>))"
  by simp

lemma clip_loop_reject:
  assumes "c1 AND c2 \<noteq> 0"
  shows "clip_loop (Suc fuel) rect q1 c1 q2 c2 = Some (Inr None)"
proof -
  from assms have "\<not> (c1 = 0 \<and> c2 = 0)" by auto
  with assms show ?thesis by simp
qed

lemma clip_loop_first:
  assumes "c1 \<noteq> 0" "c1 AND c2 = 0"
  shows "clip_loop (Suc fuel) rect q1 c1 q2 c2 =
     (case boundary_point rect q1 q2 c1 of
        Inl e \<Rightarrow> Some (Inl e)
      | Inr q \<Rightarrow> clip_loop fuel rect q (outcode rect q) q2 c2)"
  using assms by (simp add: Let_def split: sum.splits)

lemma clip_loop_second:
  assumes "c1 = 0" "c2 \<noteq> 0"
  shows "clip_loop (Suc fuel) rect q1 c1 q2 c2 =
     (case boundary_point rect q1 q2 c2 of
        Inl e \<Rightarrow> Some (Inl e)
      | Inr q \<Rightarrow> clip_loop fuel rect q1 c1 q (outcode rect q))"
  using assms by (auto simp add: Let_def split: sum.splits)

lemma loop_cases:
  fixes c1 c2 :: int
  obtains (acc) "c1 = 0" "c2 = 0"
    | (rej) "c1 AND c2 \<noteq> 0"
    | (fst) "c1 \<noteq> 0" "c1 AND c2 = 0"
    | (snd) "c1 = 0" "c2 \<noteq> 0"
  by argo

text \<open>
  From here on the loop is unfolded only through the four step lemmas above.
\<close>

declare clip_loop.simps [simp del]




lemma clip_loop_result_inside:
  "clip_loop fuel rect q1 (outcode rect q1) q2 (outcode rect q2) = Some (Inr (Some s)) \<Longrightarrow>
   outcode rect (p1 s) = 0 \<and> outcode rect (p2 s) = 0"
proof (induction fuel arbitrary: q1 q2)
  case 0
  then show ?case by (simp add: clip_loop.simps)
next
  case (Suc fuel)
  show ?case
  proof (cases "outcode rect q1" "outcode rect q2" rule: loop_cases)
    case acc
    with Suc.prems have "s = \<lparr>p1 = q1, p2 = q2\<rparr>" by (simp add: clip_loop_accept)
    with acc show ?thesis by simp
  next
    case rej
    with Suc.prems show ?thesis by (simp add: clip_loop_reject)
  next
    case fst
    show ?thesis
    proof (cases "boundary_point rect q1 q2 (outcode rect q1)")
      case (Inl e)
      with Suc.prems fst show ?thesis by (simp add: clip_loop_first)
    next
      case (Inr q)
      with Suc.prems fst
      have "clip_loop fuel rect q (outcode rect q) q2 (outcode rect q2) = Some (Inr (Some s))"
        by (simp add: clip_loop_first)
      then show ?thesis by (rule Suc.IH)
    qed
  next
    case snd
    show ?thesis
    proof (cases "boundary_point rect q1 q2 (outcode rect q2)")
      case (Inl e)
      with Suc.prems snd show ?thesis by (simp add: clip_loop_second)
    next
      case (Inr q)
      with Suc.prems snd
      have "clip_loop fuel rect q1 (outcode rect q1) q (outcode rect q) = Some (Inr (Some s))"
        by (simp add: clip_loop_second)
      then show ?thesis by (rule Suc.IH)
    qed
  qed
qed

section \<open>Properties of the segment clipper\<close>

text \<open>
  The entry code copies both endpoints and computes their outcodes, so the loop always
  starts, and by the step lemmas stays, in a state where \<open>c1\<close> and \<open>c2\<close> are the
  outcodes of the current endpoints.
\<close>

lemma cohen_sutherland_clip_loop:
  "cohen_sutherland_clip fuel seg rect =
     clip_loop fuel rect (p1 seg) (outcode rect (p1 seg)) (p2 seg) (outcode rect (p2 seg))"
  by (simp add: cohen_sutherland_clip_def Let_def)


text \<open>
  C5: if clipping a segment against a rectangle returns a segment \<open>s\<close>, then clipping
  \<open>s\<close> against the same rectangle returns \<open>s\<close> with the same coordinates, at the first
  visit of the loop head.
\<close>

theorem cohen_sutherland_clip_idempotent:
  assumes "cohen_sutherland_clip fuel seg rect = Some (Inr (Some s))"
  shows "cohen_sutherland_clip (Suc n) s rect = Some (Inr (Some s))"
proof -
  from assms have "outcode rect (p1 s) = 0 \<and> outcode rect (p2 s) = 0"
    unfolding cohen_sutherland_clip_loop by (rule clip_loop_result_inside)
  then show ?thesis
    by (simp add: cohen_sutherland_clip_loop clip_loop_accept)
qed

text \<open>
  A concrete run used by the witnesses below.
\<close>

lemma scenario_run:
  "cohen_sutherland_clip (Suc (Suc n))
     \<lparr>p1 = \<lparr>x = -5, y = 0\<rparr>, p2 = \<lparr>x = 5, y = 0\<rparr>\<rparr>
     \<lparr>xmin = 0, ymin = -1, xmax = 10, ymax = 1\<rparr>
   = Some (Inr (Some \<lparr>p1 = \<lparr>x = 0, y = 0\<rparr>, p2 = \<lparr>x = 5, y = 0\<rparr>\<rparr>))"
  by (simp add: cohen_sutherland_clip_def outcode_def boundary_point_def py_truediv_def Let_def
      clip_loop.simps)

theorem cohen_sutherland_clip_idempotent_witness:
  "cohen_sutherland_clip 2 \<lparr>p1 = \<lparr>x = -5, y = 0\<rparr>, p2 = \<lparr>x = 5, y = 0\<rparr>\<rparr>
       \<lparr>xmin = 0, ymin = -1, xmax = 10, ymax = 1\<rparr>
     = Some (Inr (Some \<lparr>p1 = \<lparr>x = 0, y = 0\<rparr>, p2 = \<lparr>x = 5, y = 0\<rparr>\<rparr>)) \<and>
   cohen_sutherland_clip (Suc 0) \<lparr>p1 = \<lparr>x = 0, y = 0\<rparr>, p2 = \<lparr>x = 5, y = 0\<rparr>\<rparr>
       \<lparr>xmin = 0, ymin = -1, xmax = 10, ymax = 1\<rparr>
     = Some (Inr (Some \<lparr>p1 = \<lparr>x = 0, y = 0\<rparr>, p2 = \<lparr>x = 5, y = 0\<rparr>\<rparr>))"
proof -
  have e: "cohen_sutherland_clip 2 \<lparr>p1 = \<lparr>x = -5, y = 0\<rparr>, p2 = \<lparr>x = 5, y = 0\<rparr>\<rparr>
       \<lparr>xmin = 0, ymin = -1, xmax = 10, ymax = 1\<rparr>
     = Some (Inr (Some \<lparr>p1 = \<lparr>x = 0, y = 0\<rparr>, p2 = \<lparr>x = 5, y = 0\<rparr>\<rparr>))"
    using scenario_run [of 0] by (simp add: eval_nat_numeral)
  from e cohen_sutherland_clip_idempotent [OF e, of 0] show ?thesis by (rule conjI)
qed

theorem zero_length_segment_witness:
  "outcode \<lparr>xmin = 0, ymin = 0, xmax = 10, ymax = 10\<rparr> \<lparr>x = 3, y = 4\<rparr> = 0 \<and>
   cohen_sutherland_clip (Suc 0) \<lparr>p1 = \<lparr>x = 3, y = 4\<rparr>, p2 = \<lparr>x = 3, y = 4\<rparr>\<rparr>
       \<lparr>xmin = 0, ymin = 0, xmax = 10, ymax = 10\<rparr>
     = Some (Inr (Some \<lparr>p1 = \<lparr>x = 3, y = 4\<rparr>, p2 = \<lparr>x = 3, y = 4\<rparr>\<rparr>)) \<and>
   outcode \<lparr>xmin = 0, ymin = 0, xmax = 10, ymax = 10\<rparr> \<lparr>x = 30, y = 4\<rparr> \<noteq> 0 \<and>
   cohen_sutherland_clip (Suc 0) \<lparr>p1 = \<lparr>x = 30, y = 4\<rparr>, p2 = \<lparr>x = 30, y = 4\<rparr>\<rparr>
       \<lparr>xmin = 0, ymin = 0, xmax = 10, ymax = 10\<rparr>
     = Some (Inr None)"
proof -
  have a: "outcode \<lparr>xmin = 0, ymin = 0, xmax = 10, ymax = 10\<rparr> \<lparr>x = 3, y = 4\<rparr> = 0"
    by (simp add: outcode_def)
  have b: "outcode \<lparr>xmin = 0, ymin = 0, xmax = 10, ymax = 10\<rparr> \<lparr>x = 30, y = 4\<rparr> \<noteq> 0"
    by (simp add: outcode_def)
  show ?thesis
    using a b
      zero_length_segment [of 0 "\<lparr>x = 3, y = 4\<rparr>" "\<lparr>xmin = 0, ymin = 0, xmax = 10, ymax = 10\<rparr>"]
      zero_length_segment [of 0 "\<lparr>x = 30, y = 4\<rparr>" "\<lparr>xmin = 0, ymin = 0, xmax = 10, ymax = 10\<rparr>"]
    by simp
qed

section \<open>Evaluating double arithmetic\<close>

lemma ilog2_numeral:
  "ilog2 (numeral k) a =
     (if 2 \<le> a then ilog2 (pred_numeral k) (a / 2) + 1
      else if a < 1 then ilog2 (pred_numeral k) (a * 2) - 1 else 0)"
  by (simp add: numeral_eq_Suc)

lemmas rd_eval = round_double_def Let_def pow2_def round_half_even_def ilog2_numeral

lemmas d_eval = boundary_point_d_def py_truediv_d_def d_sub_def d_gt_def d_ge_def outcode_d_def
  rd_eval

lemma round_double_0 [simp]: "round_double 0 = Finite 0"
  by (simp add: round_double_def)

lemma d_sub_Finite: "d_sub (Finite a) (Finite b) = round_double (a - b)"
  by (simp add: d_sub_def)

lemma d_add_Finite: "d_add (Finite a) (Finite b) = round_double (a + b)"
  by simp

lemma d_mul_Finite: "d_mul (Finite a) (Finite b) = round_double (a * b)"
  by simp

lemma d_div_Finite: "d_div (Finite a) (Finite b) = round_double (a / b)"
  by simp

lemma is_finite_d_sub: "is_finite (d_sub a b) \<Longrightarrow> is_finite a \<and> is_finite b"
  by (cases a; cases b) (simp_all add: d_sub_def)

section \<open>The segment clipper on doubles\<close>

text \<open>
  A run that cycles. The segment goes from \<open>(3, 3)\<close> to \<open>(0, 0)\<close>, the rectangle has
  \<open>xmin = ymin = 2 ^ -52\<close> (written out below) and \<open>xmax = ymax = 10\<close>. The difference
  \<open>2 ^ -52 - 3\<close> rounds to \<open>-3\<close>, so each clipping step moves the second endpoint to
  a point that is again outside: from \<open>(0, 2 ^ -52)\<close> with outcode LEFT to
  \<open>(2 ^ -52, 0)\<close> with outcode BOTTOM and back.
\<close>

lemma cycle_first:
  "clip_loop_d (Suc n)
     \<lparr>xmin_d = Finite (1 / 4503599627370496), ymin_d = Finite (1 / 4503599627370496),
      xmax_d = Finite 10, ymax_d = Finite 10\<rparr>
     \<lparr>x_d = Finite 3, y_d = Finite 3\<rparr> 0
     \<lparr>x_d = Finite 0, y_d = Finite (1 / 4503599627370496)\<rparr> 1
   = clip_loop_d n
     \<lparr>xmin_d = Finite (1 / 4503599627370496), ymin_d = Finite (1 / 4503599627370496),
      xmax_d = Finite 10, ymax_d = Finite 10\<rparr>
     \<lparr>x_d = Finite 3, y_d = Finite 3\<rparr> 0
     \<lparr>x_d = Finite (1 / 4503599627370496), y_d = Finite 0\<rparr> 4"
  by (simp add: d_eval)

lemma cycle_second:
  "clip_loop_d (Suc n)
     \<lparr>xmin_d = Finite (1 / 4503599627370496), ymin_d = Finite (1 / 4503599627370496),
      xmax_d = Finite 10, ymax_d = Finite 10\<rparr>
     \<lparr>x_d = Finite 3, y_d = Finite 3\<rparr> 0
     \<lparr>x_d = Finite (1 / 4503599627370496), y_d = Finite 0\<rparr> 4
   = clip_loop_d n
     \<lparr>xmin_d = Finite (1 / 4503599627370496), ymin_d = Finite (1 / 4503599627370496),
      xmax_d = Finite 10, ymax_d = Finite 10\<rparr>
     \<lparr>x_d = Finite 3, y_d = Finite 3\<rparr> 0
     \<lparr>x_d = Finite 0, y_d = Finite (1 / 4503599627370496)\<rparr> 1"
  by (simp add: d_eval)

lemma cycle_start:
  "cohen_sutherland_clip_d (Suc n)
     \<lparr>p1_d = \<lparr>x_d = Finite 3, y_d = Finite 3\<rparr>, p2_d = \<lparr>x_d = Finite 0, y_d = Finite 0\<rparr>\<rparr>
     \<lparr>xmin_d = Finite (1 / 4503599627370496), ymin_d = Finite (1 / 4503599627370496),
      xmax_d = Finite 10, ymax_d = Finite 10\<rparr>
   = clip_loop_d n
     \<lparr>xmin_d = Finite (1 / 4503599627370496), ymin_d = Finite (1 / 4503599627370496),
      xmax_d = Finite 10, ymax_d = Finite 10\<rparr>
     \<lparr>x_d = Finite 3, y_d = Finite 3\<rparr> 0
     \<lparr>x_d = Finite 0, y_d = Finite (1 / 4503599627370496)\<rparr> 1"
  by (simp add: cohen_sutherland_clip_d_def d_eval)

lemma cycle_forever:
  "clip_loop_d n
     \<lparr>xmin_d = Finite (1 / 4503599627370496), ymin_d = Finite (1 / 4503599627370496),
      xmax_d = Finite 10, ymax_d = Finite 10\<rparr>
     \<lparr>x_d = Finite 3, y_d = Finite 3\<rparr> 0
     \<lparr>x_d = Finite 0, y_d = Finite (1 / 4503599627370496)\<rparr> 1 = None \<and>
   clip_loop_d n
     \<lparr>xmin_d = Finite (1 / 4503599627370496), ymin_d = Finite (1 / 4503599627370496),
      xmax_d = Finite 10, ymax_d = Finite 10\<rparr>
     \<lparr>x_d = Finite 3, y_d = Finite 3\<rparr> 0
     \<lparr>x_d = Finite (1 / 4503599627370496), y_d = Finite 0\<rparr> 4 = None"
proof (induction n)
  case 0
  show ?case by simp
next
  case (Suc n)
  then show ?case by (simp only: cycle_first cycle_second)
qed

text \<open>
  C4 does not hold of the program: on the valid rectangle and the segment above, the
  loop of \<^verbatim>\<open>cohen_sutherland_clip\<close>, computed in doubles, never returns. Whatever the
  fuel, the run ends without a result.
\<close>

theorem clip_loops_forever_d:
  "valid_rect_d \<lparr>xmin_d = Finite (1 / 4503599627370496), ymin_d = Finite (1 / 4503599627370496),
      xmax_d = Finite 10, ymax_d = Finite 10\<rparr> \<and>
   cohen_sutherland_clip_d fuel
     \<lparr>p1_d = \<lparr>x_d = Finite 3, y_d = Finite 3\<rparr>, p2_d = \<lparr>x_d = Finite 0, y_d = Finite 0\<rparr>\<rparr>
     \<lparr>xmin_d = Finite (1 / 4503599627370496), ymin_d = Finite (1 / 4503599627370496),
      xmax_d = Finite 10, ymax_d = Finite 10\<rparr> = None"
proof (rule conjI)
  show "valid_rect_d \<lparr>xmin_d = Finite (1 / 4503599627370496),
      ymin_d = Finite (1 / 4503599627370496), xmax_d = Finite 10, ymax_d = Finite 10\<rparr>"
    by (simp add: valid_rect_d_def d_le_def)
  show "cohen_sutherland_clip_d fuel
     \<lparr>p1_d = \<lparr>x_d = Finite 3, y_d = Finite 3\<rparr>, p2_d = \<lparr>x_d = Finite 0, y_d = Finite 0\<rparr>\<rparr>
     \<lparr>xmin_d = Finite (1 / 4503599627370496), ymin_d = Finite (1 / 4503599627370496),
      xmax_d = Finite 10, ymax_d = Finite 10\<rparr> = None"
  proof (cases fuel)
    case 0
    then show ?thesis by (simp add: cohen_sutherland_clip_d_def)
  next
    case (Suc n)
    show ?thesis unfolding Suc cycle_start using cycle_forever [of n] by (rule conjunct1)
  qed
qed











declare clip_loop_d.simps [simp del]






section \<open>The polygon clipper on doubles\<close>

lemma inside_d_same:
  assumes "is_finite (d_sub (x_d p) (x_d c))" "is_finite (d_sub (y_d p) (y_d c))"
  shows "inside_d p c c"
proof -
  from assms obtain cx cy where c: "x_d c = Finite cx" "y_d c = Finite cy"
    using is_finite_d_sub [of "x_d p" "x_d c"] is_finite_d_sub [of "y_d p" "y_d c"]
    by (cases "x_d c"; cases "y_d c") simp_all
  from assms obtain u v where d: "d_sub (x_d p) (x_d c) = Finite u" "d_sub (y_d p) (y_d c) = Finite v"
    by (cases "d_sub (x_d p) (x_d c)"; cases "d_sub (y_d p) (y_d c)") simp_all
  have z: "d_sub (x_d c) (x_d c) = Finite 0" "d_sub (y_d c) (y_d c) = Finite 0"
    by (simp_all add: c d_sub_Finite)
  show ?thesis
    unfolding inside_d_def z d by (simp add: d_sub_Finite d_ge_def)
qed

lemma clip_edge_d_same:
  assumes "\<forall>p\<in>set ps. inside_d p c c"
  shows "clip_edge_d ps c c = rotate1 ps"
proof -
  have "fold (\<lambda>j output.
             let P = ps ! j; Q = ps ! ((j + 1) mod length ps)
             in if inside_d Q c c then
                  (if \<not> inside_d P c c then output @ [intersection_d P Q c c] else output) @ [Q]
                else if inside_d P c c then output @ [intersection_d P Q c c]
                else output) [0..<length ps] []
      = fold (\<lambda>j output. output @ [ps ! ((j + 1) mod length ps)]) [0..<length ps] []"
  proof (rule fold_cong [OF refl refl])
    fix j assume "j \<in> set [0..<length ps]"
    then have j: "j < length ps" by simp
    then have "0 < length ps" by linarith
    then have "(j + 1) mod length ps < length ps" by (rule mod_less_divisor)
    with j have "ps ! j \<in> set ps" "ps ! ((j + 1) mod length ps) \<in> set ps"
      by (simp_all only: nth_mem)
    with assms have "inside_d (ps ! j) c c" "inside_d (ps ! ((j + 1) mod length ps)) c c"
      by blast+
    then show "(\<lambda>output.
             let P = ps ! j; Q = ps ! ((j + 1) mod length ps)
             in if inside_d Q c c then
                  (if \<not> inside_d P c c then output @ [intersection_d P Q c c] else output) @ [Q]
                else if inside_d P c c then output @ [intersection_d P Q c c]
                else output)
        = (\<lambda>output. output @ [ps ! ((j + 1) mod length ps)])"
      by (simp add: Let_def)
  qed
  also have "\<dots> = map (\<lambda>j. ps ! ((j + 1) mod length ps)) [0..<length ps]"
    by (simp add: fold_snoc_map)
  also have "\<dots> = rotate1 ps"
    by (rule nth_equalityI) (simp_all add: nth_rotate1)
  finally show ?thesis by (simp add: clip_edge_d_def)
qed

text \<open>
  C10, as far as it holds of the program in doubles: with a clipper of exactly one
  vertex \<open>c\<close> and a non-empty subject \<open>q # qs\<close>, the result is the subject rotated by one
  position, provided that for every subject vertex both coordinate differences to \<open>c\<close>
  are finite doubles (no infinite or NaN coordinate, and no overflow in the
  subtraction). Then both factors \<open>c - c\<close> are 0, both products are 0, and the inside
  test \<open>0 >= 0\<close> holds for every vertex.
\<close>

theorem single_vertex_clipper_d:
  assumes "\<forall>p\<in>set (q # qs).
     is_finite (d_sub (x_d p) (x_d c)) \<and> is_finite (d_sub (y_d p) (y_d c))"
  shows "sutherland_hodgman_clip_polygon_d (q # qs) [c] = qs @ [q]"
proof -
  from assms have "\<forall>p\<in>set (q # qs). inside_d p c c"
    using inside_d_same by blast
  from clip_edge_d_same [OF this] show ?thesis
    by (simp add: sutherland_hodgman_clip_polygon_d_def)
qed

text \<open>
  C10 as stated fails on the program: for the subject \<open>[(0, -2 ^ 1023)]\<close> and the
  clipper \<open>[(0, 2 ^ 1023)]\<close> the difference of the two ordinates overflows to minus
  infinity, \<open>0 * -inf\<close> is NaN, the inside test \<open>NaN >= 0\<close> is false, and the result is
  the empty list instead of the subject.
\<close>

theorem single_vertex_clipper_d_counterexample:
  "sutherland_hodgman_clip_polygon_d
     [\<lparr>x_d = Finite 0, y_d = Finite (- (2 ^ 1023))\<rparr>]
     [\<lparr>x_d = Finite 0, y_d = Finite (2 ^ 1023)\<rparr>] = []"
  by (simp add: sutherland_hodgman_clip_polygon_d_def clip_edge_d_def inside_d_def d_sub_def
      d_ge_def rd_eval)

theorem single_vertex_clipper_d_witness:
  "is_finite (d_sub (Finite 0) (Finite 1)) \<and> is_finite (d_sub (Finite 4) (Finite 1)) \<and>
   sutherland_hodgman_clip_polygon_d
     [\<lparr>x_d = Finite 0, y_d = Finite 0\<rparr>, \<lparr>x_d = Finite 4, y_d = Finite 0\<rparr>,
      \<lparr>x_d = Finite 0, y_d = Finite 4\<rparr>]
     [\<lparr>x_d = Finite 1, y_d = Finite 1\<rparr>]
   = [\<lparr>x_d = Finite 4, y_d = Finite 0\<rparr>, \<lparr>x_d = Finite 0, y_d = Finite 4\<rparr>,
      \<lparr>x_d = Finite 0, y_d = Finite 0\<rparr>]"
proof -
  have h: "\<forall>p\<in>set (\<lparr>x_d = Finite 0, y_d = Finite 0\<rparr> # [\<lparr>x_d = Finite 4, y_d = Finite 0\<rparr>,
        \<lparr>x_d = Finite 0, y_d = Finite 4\<rparr>]).
      is_finite (d_sub (x_d p) (x_d \<lparr>x_d = Finite 1, y_d = Finite 1\<rparr>)) \<and>
      is_finite (d_sub (y_d p) (y_d \<lparr>x_d = Finite 1, y_d = Finite 1\<rparr>))"
    by (simp add: d_sub_Finite rd_eval)
  from h single_vertex_clipper_d [OF h] show ?thesis by simp
qed

section \<open>The line intersection routine on doubles\<close>

lemma intersection_d_parallel:
  "d_eq (det_d q1 q2 a b) (Finite 0) \<Longrightarrow> intersection_d q1 q2 a b = q2"
  by (simp add: intersection_d_def det_d_def Let_def)

lemma intersection_d_exact:
  assumes ex: "\<forall>v\<in>set (intermediates r1 r2 ra rb). round_double v = Finite v"
  shows "det_d (to_d r1) (to_d r2) (to_d ra) (to_d rb) = Finite (line_det r1 r2 ra rb)"
    and "line_det r1 r2 ra rb \<noteq> 0 \<Longrightarrow>
      intersection_d (to_d r1) (to_d r2) (to_d ra) (to_d rb) = to_d (intersection r1 r2 ra rb)"
proof -
  define A1 where "A1 = y r2 - y r1"
  define B1 where "B1 = x r1 - x r2"
  define C1 where "C1 = A1 * x r1 + B1 * y r1"
  define A2 where "A2 = y rb - y ra"
  define B2 where "B2 = x ra - x rb"
  define C2 where "C2 = A2 * x ra + B2 * y ra"
  define det where "det = A1 * B2 - A2 * B1"
  have h: "\<forall>v\<in>set [A1, B1, A1 * x r1, B1 * y r1, C1, A2, B2, A2 * x ra, B2 * y ra, C2,
          A1 * B2, A2 * B1, det,
          B2 * C1, B1 * C2, B2 * C1 - B1 * C2, (B2 * C1 - B1 * C2) / det,
          A1 * C2, A2 * C1, A1 * C2 - A2 * C1, (A1 * C2 - A2 * C1) / det].
        round_double v = Finite v"
    using ex unfolding intermediates_def Let_def det_def C2_def C1_def B2_def A2_def B1_def A1_def .
  have e:
    "round_double A1 = Finite A1" "round_double B1 = Finite B1"
    "round_double (A1 * x r1) = Finite (A1 * x r1)" "round_double (B1 * y r1) = Finite (B1 * y r1)"
    "round_double C1 = Finite C1"
    "round_double A2 = Finite A2" "round_double B2 = Finite B2"
    "round_double (A2 * x ra) = Finite (A2 * x ra)" "round_double (B2 * y ra) = Finite (B2 * y ra)"
    "round_double C2 = Finite C2"
    "round_double (A1 * B2) = Finite (A1 * B2)" "round_double (A2 * B1) = Finite (A2 * B1)"
    "round_double det = Finite det"
    "round_double (B2 * C1) = Finite (B2 * C1)" "round_double (B1 * C2) = Finite (B1 * C2)"
    "round_double (B2 * C1 - B1 * C2) = Finite (B2 * C1 - B1 * C2)"
    "round_double ((B2 * C1 - B1 * C2) / det) = Finite ((B2 * C1 - B1 * C2) / det)"
    "round_double (A1 * C2) = Finite (A1 * C2)" "round_double (A2 * C1) = Finite (A2 * C1)"
    "round_double (A1 * C2 - A2 * C1) = Finite (A1 * C2 - A2 * C1)"
    "round_double ((A1 * C2 - A2 * C1) / det) = Finite ((A1 * C2 - A2 * C1) / det)"
    using h by simp_all
  have fA1: "d_sub (Finite (y r2)) (Finite (y r1)) = Finite A1"
    by (simp only: d_sub_Finite A1_def [symmetric] e)
  have fB1: "d_sub (Finite (x r1)) (Finite (x r2)) = Finite B1"
    by (simp only: d_sub_Finite B1_def [symmetric] e)
  have fA2: "d_sub (Finite (y rb)) (Finite (y ra)) = Finite A2"
    by (simp only: d_sub_Finite A2_def [symmetric] e)
  have fB2: "d_sub (Finite (x ra)) (Finite (x rb)) = Finite B2"
    by (simp only: d_sub_Finite B2_def [symmetric] e)
  have fC1: "d_add (d_mul (Finite A1) (Finite (x r1))) (d_mul (Finite B1) (Finite (y r1)))
      = Finite C1"
    by (simp only: d_mul_Finite d_add_Finite C1_def [symmetric] e)
  have fC2: "d_add (d_mul (Finite A2) (Finite (x ra))) (d_mul (Finite B2) (Finite (y ra)))
      = Finite C2"
    by (simp only: d_mul_Finite d_add_Finite C2_def [symmetric] e)
  have fdet: "d_sub (d_mul (Finite A1) (Finite B2)) (d_mul (Finite A2) (Finite B1)) = Finite det"
    by (simp only: d_mul_Finite d_sub_Finite det_def [symmetric] e)
  have fx: "d_div (d_sub (d_mul (Finite B2) (Finite C1)) (d_mul (Finite B1) (Finite C2)))
      (Finite det) = Finite ((B2 * C1 - B1 * C2) / det)"
    by (simp only: d_mul_Finite d_sub_Finite d_div_Finite e)
  have fy: "d_div (d_sub (d_mul (Finite A1) (Finite C2)) (d_mul (Finite A2) (Finite C1)))
      (Finite det) = Finite ((A1 * C2 - A2 * C1) / det)"
    by (simp only: d_mul_Finite d_sub_Finite d_div_Finite e)
  have ld: "line_det r1 r2 ra rb = det"
    by (simp add: line_det_def det_def A1_def B1_def A2_def B2_def)
  show "det_d (to_d r1) (to_d r2) (to_d ra) (to_d rb) = Finite (line_det r1 r2 ra rb)"
    unfolding ld det_d_def to_d_def Let_def Point_d.select_convs fA1 fB1 fA2 fB2 by (rule fdet)
  assume nz: "line_det r1 r2 ra rb \<noteq> 0"
  have "intersection_d (to_d r1) (to_d r2) (to_d ra) (to_d rb)
      = \<lparr>x_d = Finite ((B2 * C1 - B1 * C2) / det), y_d = Finite ((A1 * C2 - A2 * C1) / det)\<rparr>"
    unfolding intersection_d_def to_d_def Let_def Point_d.select_convs fA1 fB1 fA2 fB2 fC1 fC2
      fdet fx fy
    using nz [unfolded ld] by simp
  also have "\<dots> = to_d (intersection r1 r2 ra rb)"
    using nz [unfolded ld]
    by (simp add: to_d_def intersection_def Let_def det_def C1_def C2_def A1_def B1_def
        A2_def B2_def)
  finally show "intersection_d (to_d r1) (to_d r2) (to_d ra) (to_d rb)
      = to_d (intersection r1 r2 ra rb)" .
qed

text \<open>
  C8, as far as it holds of the program in doubles. When the determinant, as computed
  in doubles, compares equal to zero, \<^verbatim>\<open>intersection\<close> returns its second argument
  unchanged. Otherwise it returns the quotients of Cramer's rule as computed in doubles;
  when no operation of the routine rounds, that point is the solution of the system of
  the two implicit line equations, the one point on both lines.
\<close>

theorem intersection_d_spec:
  "(d_eq (det_d q1 q2 a b) (Finite 0) \<longrightarrow> intersection_d q1 q2 a b = q2) \<and>
   (\<not> d_eq (det_d (to_d r1) (to_d r2) (to_d ra) (to_d rb)) (Finite 0) \<and>
    (\<forall>v\<in>set (intermediates r1 r2 ra rb). round_double v = Finite v) \<longrightarrow>
      intersection_d (to_d r1) (to_d r2) (to_d ra) (to_d rb) = to_d (intersection r1 r2 ra rb) \<and>
      (\<forall>p. on_line r1 r2 p \<and> on_line ra rb p \<longleftrightarrow> p = intersection r1 r2 ra rb))"
proof (intro conjI impI)
  assume "d_eq (det_d q1 q2 a b) (Finite 0)"
  then show "intersection_d q1 q2 a b = q2" by (rule intersection_d_parallel)
next
  assume h: "\<not> d_eq (det_d (to_d r1) (to_d r2) (to_d ra) (to_d rb)) (Finite 0) \<and>
    (\<forall>v\<in>set (intermediates r1 r2 ra rb). round_double v = Finite v)"
  then have ex: "\<forall>v\<in>set (intermediates r1 r2 ra rb). round_double v = Finite v" by (rule conjunct2)
  from h have "\<not> d_eq (det_d (to_d r1) (to_d r2) (to_d ra) (to_d rb)) (Finite 0)"
    by (rule conjunct1)
  then have nz: "line_det r1 r2 ra rb \<noteq> 0"
    unfolding intersection_d_exact(1) [OF ex] by simp
  show "intersection_d (to_d r1) (to_d r2) (to_d ra) (to_d rb) = to_d (intersection r1 r2 ra rb)"
    using ex nz by (rule intersection_d_exact(2))
  show "\<forall>p. on_line r1 r2 p \<and> on_line ra rb p \<longleftrightarrow> p = intersection r1 r2 ra rb"
    using intersection_solves [OF nz] intersection_only_solution [OF nz] by blast
qed

text \<open>
  C8 as stated fails on the program: for the line through \<open>(0, 0)\<close> and \<open>(3, 1)\<close> and
  the clip line through \<open>(1, -5)\<close> and \<open>(1, 5)\<close> the computed determinant is not zero,
  and the returned point has the ordinate \<open>1 / 3\<close> rounded to a double, so that it does
  not satisfy the equation of the first line.
\<close>

theorem intersection_d_counterexample:
  "\<not> d_eq (det_d \<lparr>x_d = Finite 0, y_d = Finite 0\<rparr> \<lparr>x_d = Finite 3, y_d = Finite 1\<rparr>
             \<lparr>x_d = Finite 1, y_d = Finite (- 5)\<rparr> \<lparr>x_d = Finite 1, y_d = Finite 5\<rparr>) (Finite 0) \<and>
   intersection_d \<lparr>x_d = Finite 0, y_d = Finite 0\<rparr> \<lparr>x_d = Finite 3, y_d = Finite 1\<rparr>
       \<lparr>x_d = Finite 1, y_d = Finite (- 5)\<rparr> \<lparr>x_d = Finite 1, y_d = Finite 5\<rparr>
     = \<lparr>x_d = Finite 1, y_d = Finite (6004799503160661 / 18014398509481984)\<rparr> \<and>
   \<not> on_line \<lparr>x = 0, y = 0\<rparr> \<lparr>x = 3, y = 1\<rparr>
       \<lparr>x = 1, y = 6004799503160661 / 18014398509481984\<rparr>"
  by (simp add: det_d_def intersection_d_def d_sub_def on_line_def rd_eval)

theorem intersection_d_spec_witness:
  "d_eq (det_d \<lparr>x_d = Finite 0, y_d = Finite 0\<rparr> \<lparr>x_d = Finite 1, y_d = Finite 0\<rparr>
          \<lparr>x_d = Finite 0, y_d = Finite 1\<rparr> \<lparr>x_d = Finite 1, y_d = Finite 1\<rparr>) (Finite 0) \<and>
   intersection_d \<lparr>x_d = Finite 0, y_d = Finite 0\<rparr> \<lparr>x_d = Finite 1, y_d = Finite 0\<rparr>
       \<lparr>x_d = Finite 0, y_d = Finite 1\<rparr> \<lparr>x_d = Finite 1, y_d = Finite 1\<rparr>
     = \<lparr>x_d = Finite 1, y_d = Finite 0\<rparr> \<and>
   \<not> d_eq (det_d (to_d \<lparr>x = 4, y = 4\<rparr>) (to_d \<lparr>x = 0, y = 4\<rparr>)
            (to_d \<lparr>x = 4, y = 0\<rparr>) (to_d \<lparr>x = 0, y = 4\<rparr>)) (Finite 0) \<and>
   map round_double
       (intermediates \<lparr>x = 4, y = 4\<rparr> \<lparr>x = 0, y = 4\<rparr> \<lparr>x = 4, y = 0\<rparr> \<lparr>x = 0, y = 4\<rparr>)
     = map Finite
       (intermediates \<lparr>x = 4, y = 4\<rparr> \<lparr>x = 0, y = 4\<rparr> \<lparr>x = 4, y = 0\<rparr> \<lparr>x = 0, y = 4\<rparr>) \<and>
   intersection_d (to_d \<lparr>x = 4, y = 4\<rparr>) (to_d \<lparr>x = 0, y = 4\<rparr>)
       (to_d \<lparr>x = 4, y = 0\<rparr>) (to_d \<lparr>x = 0, y = 4\<rparr>) = \<lparr>x_d = Finite 0, y_d = Finite 4\<rparr>"
proof -
  have m: "map round_double
       (intermediates \<lparr>x = 4, y = 4\<rparr> \<lparr>x = 0, y = 4\<rparr> \<lparr>x = 4, y = 0\<rparr> \<lparr>x = 0, y = 4\<rparr>)
     = map Finite
       (intermediates \<lparr>x = 4, y = 4\<rparr> \<lparr>x = 0, y = 4\<rparr> \<lparr>x = 4, y = 0\<rparr> \<lparr>x = 0, y = 4\<rparr>)"
    by (simp add: intermediates_def rd_eval)
  have z: "d_eq (det_d \<lparr>x_d = Finite 0, y_d = Finite 0\<rparr> \<lparr>x_d = Finite 1, y_d = Finite 0\<rparr>
          \<lparr>x_d = Finite 0, y_d = Finite 1\<rparr> \<lparr>x_d = Finite 1, y_d = Finite 1\<rparr>) (Finite 0)"
    by (simp add: det_d_def d_sub_def rd_eval)
  have n: "\<not> d_eq (det_d (to_d \<lparr>x = 4, y = 4\<rparr>) (to_d \<lparr>x = 0, y = 4\<rparr>)
            (to_d \<lparr>x = 4, y = 0\<rparr>) (to_d \<lparr>x = 0, y = 4\<rparr>)) (Finite 0)"
    by (simp add: det_d_def to_d_def d_sub_def rd_eval)
  have ex: "\<forall>v\<in>set (intermediates \<lparr>x = 4, y = 4\<rparr> \<lparr>x = 0, y = 4\<rparr> \<lparr>x = 4, y = 0\<rparr> \<lparr>x = 0, y = 4\<rparr>).
      round_double v = Finite v"
    by (simp add: intermediates_def rd_eval)
  have i: "to_d (intersection \<lparr>x = 4, y = 4\<rparr> \<lparr>x = 0, y = 4\<rparr> \<lparr>x = 4, y = 0\<rparr> \<lparr>x = 0, y = 4\<rparr>)
      = \<lparr>x_d = Finite 0, y_d = Finite 4\<rparr>"
    by (simp add: to_d_def intersection_def)
  show ?thesis
    using z n ex m
      intersection_d_spec [where ?q1.0 = "\<lparr>x_d = Finite 0, y_d = Finite 0\<rparr>"
        and ?q2.0 = "\<lparr>x_d = Finite 1, y_d = Finite 0\<rparr>"
        and a = "\<lparr>x_d = Finite 0, y_d = Finite 1\<rparr>" and b = "\<lparr>x_d = Finite 1, y_d = Finite 1\<rparr>"
        and ?r1.0 = "\<lparr>x = 4, y = 4\<rparr>" and ?r2.0 = "\<lparr>x = 0, y = 4\<rparr>"
        and ra = "\<lparr>x = 4, y = 0\<rparr>" and rb = "\<lparr>x = 0, y = 4\<rparr>"]
    unfolding i [symmetric] by blast
qed

end
